theory Spec2Isabelle
  imports Complex_Main
begin

section \<open>Shared vocabulary: exceptions, JSON values, dictionary reads\<close>

text \<open>
  Python exceptions are values. Each constructor carries the message, apart from
  \<open>KeyError\<close>, which carries the missing key (\<^verbatim>\<open>str(e)\<close> puts it in
  quotes). \<open>ModuleError\<close> stands for whatever else an exploit module raises.
\<close>

datatype exn =
    FileNotFoundError string
  | ValueError string
  | PermissionError string
  | TimeoutExpired string
  | OSError string
  | KeyError string
  | TypeError string
  | ModuleError string

definition quote :: string where
  "quote = [CHR 0x27]"

fun str_of :: "exn \<Rightarrow> string" where
  "str_of (FileNotFoundError m) = m"
| "str_of (ValueError m) = m"
| "str_of (PermissionError m) = m"
| "str_of (TimeoutExpired m) = m"
| "str_of (OSError m) = m"
| "str_of (KeyError k) = quote @ k @ quote"
| "str_of (TypeError m) = m"
| "str_of (ModuleError m) = m"

text \<open>
  The values that \<^verbatim>\<open>json.load\<close> produces and \<^verbatim>\<open>json.dump\<close> accepts
  (floats left out: no value of the replay pipeline is one).
\<close>

datatype json =
    JNull
  | JBool bool
  | JInt int
  | JStr string
  | JArr "json list"
  | JObj "(string \<times> json) list"


text \<open>\<^verbatim>\<open>d.get(key, default)\<close>, the key's presence being an option.\<close>

definition dict_get :: "'a option \<Rightarrow> 'a \<Rightarrow> 'a" where
  "dict_get v dflt = (case v of None \<Rightarrow> dflt | Some x \<Rightarrow> x)"

text \<open>\<^verbatim>\<open>s.replace(' ', '_')\<close>.\<close>

definition replace_spaces :: "string \<Rightarrow> string" where
  "replace_spaces s = map (\<lambda>c. if c = CHR '' '' then CHR ''_'' else c) s"


section \<open>Attack replay (ops/attack\_replay.py)\<close>




record step_result =
  device :: string
  action :: string
  success :: bool
  impact :: string
  log_text :: string

record summary =
  chain_name :: string
  total_steps :: int
  successes :: int
  failures :: int
  impacts :: "string list"
  overall_success :: bool




text \<open>
  \<^verbatim>\<open>analyze_results\<close>; \<^verbatim>\<open>sum(1 for r in results if r["success"])\<close> is the sum
  of a one for every successful result. Python integers are unbounded: \<open>int\<close>.
\<close>

definition analyze_results :: "string \<Rightarrow> step_result list \<Rightarrow> summary" where
  "analyze_results name results =
     (let total = int (length results);
          succ = sum_list (map (\<lambda>r. 1) (filter success results));
          fails = total - succ
      in \<lparr> chain_name = name,
           total_steps = total,
           successes = succ,
           failures = fails,
           impacts = map impact results,
           overall_success = (succ = total) \<rparr>)"

text \<open>What \<^verbatim>\<open>json.dump\<close> writes for a step result, a summary and the report.\<close>

definition result_json :: "step_result \<Rightarrow> json" where
  "result_json r =
     JObj [(''device'', JStr (device r)), (''action'', JStr (action r)),
           (''success'', JBool (success r)), (''impact'', JStr (impact r)),
           (''log'', JStr (log_text r))]"

definition summary_json :: "summary \<Rightarrow> json" where
  "summary_json s =
     JObj [(''chain_name'', JStr (chain_name s)), (''total_steps'', JInt (total_steps s)),
           (''successes'', JInt (successes s)), (''failures'', JInt (failures s)),
           (''impacts'', JArr (map JStr (impacts s))),
           (''overall_success'', JBool (overall_success s))]"

text \<open>
  \<^verbatim>\<open>generate_report\<close>. The file system is a map from paths to the JSON document
  each file holds: \<^verbatim>\<open>json.dump\<close> followed by \<^verbatim>\<open>json.load\<close> is taken to give
  back the document written. \<open>writable\<close> says whether \<^verbatim>\<open>open(path, "w")\<close>
  succeeds; its failure is raised to the caller.
\<close>

definition generate_report ::
  "(string \<Rightarrow> bool) \<Rightarrow> string \<Rightarrow> step_result list \<Rightarrow> summary \<Rightarrow> string option
   \<Rightarrow> (string \<rightharpoonup> json) \<Rightarrow> exn + (string \<times> (string \<rightharpoonup> json))" where
  "generate_report writable name results summ output_path fs =
     (let report = JObj [(''chain_name'', JStr name),
                         (''results'', JArr (map result_json results)),
                         (''summary'', summary_json summ)];
          path = (case output_path of
                    None \<Rightarrow> replace_spaces name @ ''_attackreplay_report.json''
                  | Some p \<Rightarrow> if p = [] then replace_spaces name @ ''_attackreplay_report.json''
                              else p)
      in if writable path then Inr (path, fs(path \<mapsto> report))
         else Inl (OSError path))"

text \<open>
  Reading a persisted report back: the keys of the report file that hold the
  step count and the overall success.
\<close>

fun obj_get :: "json \<Rightarrow> string \<Rightarrow> json option" where
  "obj_get (JObj kvs) k = map_of kvs k"
| "obj_get _ k = None"

definition report_result_count :: "json \<Rightarrow> nat option" where
  "report_result_count rep =
     (case obj_get rep ''results'' of Some (JArr xs) \<Rightarrow> Some (length xs) | _ \<Rightarrow> None)"

definition report_total_steps :: "json \<Rightarrow> int option" where
  "report_total_steps rep =
     (case obj_get rep ''summary'' of
        Some s \<Rightarrow> (case obj_get s ''total_steps'' of Some (JInt n) \<Rightarrow> Some n | _ \<Rightarrow> None)
      | None \<Rightarrow> None)"

definition report_overall_success :: "json \<Rightarrow> bool option" where
  "report_overall_success rep =
     (case obj_get rep ''summary'' of
        Some s \<Rightarrow> (case obj_get s ''overall_success'' of Some (JBool b) \<Rightarrow> Some b | _ \<Rightarrow> None)
      | None \<Rightarrow> None)"



section \<open>The medical exploit module (modules/medical\_iot.py)\<close>












section \<open>HIL emulator (core/hil\_emulator.py)\<close>

text \<open>
  Strings are byte strings (UTF-8), as captured from the child process.
  \<^verbatim>\<open>str.lower()\<close> maps the ASCII letters A to Z to a to z; what it does to
  other code points neither creates nor removes an occurrence of the ASCII words
  the scorer looks for, and is left out.
\<close>

definition lower_char :: "char \<Rightarrow> char" where
  "lower_char c =
     (let n = (of_char c :: nat) in if 65 \<le> n \<and> n \<le> 90 then char_of (n + 32) else c)"

definition lower :: "string \<Rightarrow> string" where
  "lower s = map lower_char s"

text \<open>Python's \<^verbatim>\<open>sub in s\<close> on strings.\<close>

fun starts_with :: "string \<Rightarrow> string \<Rightarrow> bool" where
  "starts_with [] s = True"
| "starts_with (a # as) [] = False"
| "starts_with (a # as) (b # bs) = (a = b \<and> starts_with as bs)"

fun contains :: "string \<Rightarrow> string \<Rightarrow> bool" where
  "contains sub [] = (sub = [])"
| "contains sub (c # cs) = (starts_with sub (c # cs) \<or> contains sub cs)"

text \<open>\<^verbatim>\<open>os.path.basename\<close> and \<^verbatim>\<open>os.path.join\<close> (POSIX).\<close>

definition basename :: "string \<Rightarrow> string" where
  "basename p = rev (takeWhile (\<lambda>c. c \<noteq> CHR ''/'') (rev p))"

definition path_join :: "string \<Rightarrow> string \<Rightarrow> string" where
  "path_join a b =
     (if b \<noteq> [] \<and> hd b = CHR ''/'' then b
      else if a = [] \<or> last a = CHR ''/'' then a @ b
      else a @ ''/'' @ b)"

text \<open>How an f-string prints an attribute that may be \<^verbatim>\<open>None\<close>.\<close>

definition fmt :: "string option \<Rightarrow> string" where
  "fmt v = (case v of None \<Rightarrow> ''None'' | Some s \<Rightarrow> s)"

text \<open>The configuration dictionary and the attributes \<^verbatim>\<open>__init__\<close> sets from it.\<close>

record config =
  cfg_arch :: "string option"
  cfg_firmware_path :: "string option"
  cfg_payload_path :: "string option"
  cfg_fpga_enabled :: "bool option"
  cfg_qemu_path :: "string option"

record emulator =
  arch :: string
  firmware_path :: "string option"
  payload_path :: "string option"
  fpga_enabled :: bool
  qemu_path :: string

definition init :: "config \<Rightarrow> emulator" where
  "init c =
     \<lparr> arch = lower (dict_get (cfg_arch c) ''arm''),
       firmware_path = cfg_firmware_path c,
       payload_path = cfg_payload_path c,
       fpga_enabled = dict_get (cfg_fpga_enabled c) False,
       qemu_path = dict_get (cfg_qemu_path c) ''qemu-system-arm'' \<rparr>"

text \<open>
  The result dictionary: a completed run has \<^verbatim>\<open>stdout\<close>, \<^verbatim>\<open>stderr\<close>,
  \<^verbatim>\<open>returncode\<close> and \<^verbatim>\<open>mode\<close>; a run that ended in an exception has
  \<^verbatim>\<open>error\<close> and \<^verbatim>\<open>mode\<close> only; \<^verbatim>\<open>run\<close> adds \<^verbatim>\<open>risk_score\<close>.
\<close>

record result =
  stdout :: "string option"
  stderr :: "string option"
  returncode :: "int option"
  error :: "string option"
  mode :: string
  risk_score :: "real option"

text \<open>
  The part of the machine a run touches: the regular files, those of them that
  cannot be opened for reading, the directories on disk, every directory
  \<^verbatim>\<open>mkdtemp\<close> has created, every command \<^verbatim>\<open>Popen\<close> has started, the
  children that are still running (neither exited nor killed), and the
  directories into which a running child keeps writing.
\<close>

record world =
  files :: "string set"
  unreadable :: "string set"
  dirs :: "string set"
  created :: "string list"
  spawned :: "string list"
  running :: "string list"
  busy :: "string set"

text \<open>
  What the environment does during one run: the directory \<^verbatim>\<open>mkdtemp\<close> returns
  (or its failure), whether \<^verbatim>\<open>Popen\<close> raises, and whether the child exits
  within the 60 seconds of \<^verbatim>\<open>communicate\<close> (with its decoded output and return
  code) or is still running then; a child that is still running either keeps
  writing into the sandbox directory (\<open>Hangs True\<close>) or does not
  (\<open>Hangs False\<close>).
\<close>

datatype child_outcome = Exits string string int | Hangs bool

record env =
  mkdtemp_outcome :: "exn + string"
  popen_outcome :: "exn option"
  child :: child_outcome

definition isfile :: "world \<Rightarrow> string \<Rightarrow> bool" where
  "isfile w p = (p \<in> files w)"

definition copy2 :: "string \<Rightarrow> string \<Rightarrow> world \<Rightarrow> exn + world" where
  "copy2 src dst w =
     (if src \<notin> files w
      then Inl (FileNotFoundError
                  (''[Errno 2] No such file or directory: '' @ quote @ src @ quote))
      else if src \<in> unreadable w
      then Inl (PermissionError (''[Errno 13] Permission denied: '' @ quote @ src @ quote))
      else Inr (w\<lparr>files := insert dst (files w)\<rparr>))"

text \<open>
  \<^verbatim>\<open>shutil.rmtree(d)\<close>, called without \<^verbatim>\<open>ignore_errors\<close>: it removes the
  directory and what is in it, unless a running child keeps writing into the
  directory; then the final \<^verbatim>\<open>rmdir\<close> fails, \<^verbatim>\<open>rmtree\<close> raises
  \<^verbatim>\<open>OSError\<close> and the directory stays on disk.
\<close>

definition rmtree :: "string \<Rightarrow> world \<Rightarrow> exn + world" where
  "rmtree d w =
     (if d \<in> busy w
      then Inl (OSError (''[Errno 39] Directory not empty: '' @ quote @ d @ quote))
      else Inr (w\<lparr> dirs := dirs w - {d},
                  files := {f \<in> files w. take (length d + 1) f \<noteq> d @ ''/''} \<rparr>))"

definition build_qemu_cmd :: "emulator \<Rightarrow> string \<Rightarrow> string \<Rightarrow> exn + string" where
  "build_qemu_cmd em firmware payload =
     (case (if arch em = ''arm'' then Inr (qemu_path em)
            else if arch em = ''riscv'' then Inr ''qemu-system-riscv32''
            else if arch em = ''mips'' then Inr ''qemu-system-mips''
            else Inl (ValueError (''Unsupported arch for QEMU: '' @ arch em))) of
        Inl e \<Rightarrow> Inl e
      | Inr qemu_bin \<Rightarrow>
          Inr (qemu_bin @ '' -kernel '' @ firmware @ '' -append '' @ quote @ ''init=''
               @ payload @ quote @ '' -nographic''))"

text \<open>
  The body of the \<^verbatim>\<open>try\<close> block of \<^verbatim>\<open>_run_qemu\<close>. When
  \<^verbatim>\<open>communicate\<close> times out the child is left as it is: nothing kills it.
\<close>

definition run_qemu_body ::
  "emulator \<Rightarrow> env \<Rightarrow> string \<Rightarrow> string \<Rightarrow> string \<Rightarrow> world \<Rightarrow> (exn + result) \<times> world" where
  "run_qemu_body em ev fw pl temp_dir w =
     (let firmware_copy = path_join temp_dir (basename fw);
          payload_copy = path_join temp_dir (basename pl)
      in case copy2 fw firmware_copy w of
           Inl e \<Rightarrow> (Inl e, w)
         | Inr w1 \<Rightarrow>
             (case copy2 pl payload_copy w1 of
                Inl e \<Rightarrow> (Inl e, w1)
              | Inr w2 \<Rightarrow>
                  (case build_qemu_cmd em firmware_copy payload_copy of
                     Inl e \<Rightarrow> (Inl e, w2)
                   | Inr qemu_cmd \<Rightarrow>
                       (case popen_outcome ev of
                          Some e \<Rightarrow> (Inl e, w2)
                        | None \<Rightarrow>
                            (let w3 = w2\<lparr> spawned := spawned w2 @ [qemu_cmd],
                                          running := running w2 @ [qemu_cmd] \<rparr>
                             in case child ev of
                                  Hangs writing \<Rightarrow>
                                    (Inl (TimeoutExpired
                                            (''Command '' @ quote @ qemu_cmd @ quote
                                             @ '' timed out after 60 seconds'')),
                                     w3\<lparr>busy := (if writing then insert temp_dir (busy w3)
                                                  else busy w3)\<rparr>)
                                | Exits out err rc \<Rightarrow>
                                    (Inr \<lparr> stdout = Some out, stderr = Some err,
                                           returncode = Some rc, error = None,
                                           mode = ''qemu'', risk_score = None \<rparr>,
                                     w3\<lparr>running := remove1 qemu_cmd (running w3)\<rparr>))))))"

text \<open>
  \<^verbatim>\<open>_run_qemu\<close>: the two checks raise to the caller; \<^verbatim>\<open>mkdtemp\<close> runs
  before the \<^verbatim>\<open>try\<close> and makes a new directory, into which nothing writes
  yet; \<^verbatim>\<open>except Exception\<close> turns whatever the body raises into an error
  dictionary; \<^verbatim>\<open>finally\<close> calls \<^verbatim>\<open>rmtree\<close>, and an exception raised there
  takes the place of the value being returned.
\<close>

definition run_qemu :: "emulator \<Rightarrow> env \<Rightarrow> world \<Rightarrow> (exn + result) \<times> world" where
  "run_qemu em ev w =
     (case firmware_path em of
        None \<Rightarrow> (Inl (FileNotFoundError (''Firmware not found: '' @ fmt (firmware_path em))), w)
      | Some fw \<Rightarrow>
          if fw = [] \<or> \<not> isfile w fw
          then (Inl (FileNotFoundError (''Firmware not found: '' @ fmt (firmware_path em))), w)
          else
            (case payload_path em of
               None \<Rightarrow>
                 (Inl (FileNotFoundError (''Payload not found: '' @ fmt (payload_path em))), w)
             | Some pl \<Rightarrow>
                 if pl = [] \<or> \<not> isfile w pl
                 then (Inl (FileNotFoundError
                              (''Payload not found: '' @ fmt (payload_path em))), w)
                 else
                   (case mkdtemp_outcome ev of
                      Inl e \<Rightarrow> (Inl e, w)
                    | Inr temp_dir \<Rightarrow>
                        (let w1 = w\<lparr> dirs := insert temp_dir (dirs w),
                                     created := created w @ [temp_dir],
                                     busy := busy w - {temp_dir} \<rparr>
                         in case run_qemu_body em ev fw pl temp_dir w1 of
                              (Inr res, w2) \<Rightarrow>
                                (case rmtree temp_dir w2 of
                                   Inl e \<Rightarrow> (Inl e, w2)
                                 | Inr w3 \<Rightarrow> (Inr res, w3))
                            | (Inl e, w2) \<Rightarrow>
                                (case rmtree temp_dir w2 of
                                   Inl e2 \<Rightarrow> (Inl e2, w2)
                                 | Inr w3 \<Rightarrow>
                                     (Inr \<lparr> stdout = None, stderr = None, returncode = None,
                                            error = Some (str_of e), mode = ''qemu'',
                                            risk_score = None \<rparr>, w3))))))"

definition run_fpga :: "emulator \<Rightarrow> result" where
  "run_fpga em =
     \<lparr> stdout = Some (''[MOCK] FPGA run of '' @ fmt (payload_path em) @ '' on '' @ arch em),
       stderr = Some [], returncode = Some 0, error = None,
       mode = ''fpga'', risk_score = None \<rparr>"

text \<open>
  \<^verbatim>\<open>_calculate_risk\<close>. The scores are the decimal literals of the source, read
  as reals.
\<close>

definition calculate_risk :: "result \<Rightarrow> real" where
  "calculate_risk res =
     (let err = lower (dict_get (stderr res) [])
      in if contains ''segfault'' err \<or> contains ''panic'' err then 0.9
         else if contains ''error'' err then 0.7
         else 0.2)"

text \<open>
  \<^verbatim>\<open>run\<close>: an argument that is given and not empty replaces the payload path
  of the emulator for this run.
\<close>

definition run :: "emulator \<Rightarrow> string option \<Rightarrow> env \<Rightarrow> world \<Rightarrow> (exn + result) \<times> world" where
  "run em payload ev w =
     (let em1 = (case payload of
                   None \<Rightarrow> em
                 | Some p \<Rightarrow> if p = [] then em else em\<lparr>payload_path := Some p\<rparr>)
      in case (if fpga_enabled em1 then (Inr (run_fpga em1), w) else run_qemu em1 ev w) of
           (Inl e, w1) \<Rightarrow> (Inl e, w1)
         | (Inr res, w1) \<Rightarrow> (Inr (res\<lparr>risk_score := Some (calculate_risk res)\<rparr>), w1))"

text \<open>
  A word occurs in a text in some letter case: a stretch of the text reads as
  the word once its letters are lowered.
\<close>

definition occurs_any_case :: "string \<Rightarrow> string \<Rightarrow> bool" where
  "occurs_any_case word s = (\<exists>ps t ss. s = ps @ t @ ss \<and> lower t = word)"

text \<open>The dictionary \<^verbatim>\<open>{"error": str(e), "mode": "qemu"}\<close> of the \<^verbatim>\<open>except\<close> branch.\<close>

definition error_result :: "exn \<Rightarrow> result" where
  "error_result e =
     \<lparr> stdout = None, stderr = None, returncode = None,
       error = Some (str_of e), mode = ''qemu'', risk_score = None \<rparr>"

text \<open>
  An artifact path that fails the check \<^verbatim>\<open>not path or not os.path.isfile(path)\<close>.
\<close>

definition not_a_file :: "world \<Rightarrow> string option \<Rightarrow> bool" where
  "not_a_file w p = (case p of None \<Rightarrow> True | Some f \<Rightarrow> f = [] \<or> \<not> isfile w f)"

text \<open>Fixtures: an emulator for an architecture, a machine with both artifacts on disk.\<close>

definition example_emulator :: "string \<Rightarrow> emulator" where
  "example_emulator a =
     init \<lparr> cfg_arch = Some a, cfg_firmware_path = Some ''fw.bin'',
            cfg_payload_path = Some ''payload.bin'', cfg_fpga_enabled = None,
            cfg_qemu_path = None \<rparr>"

definition example_world :: world where
  "example_world =
     \<lparr> files = {''fw.bin'', ''payload.bin''}, unreadable = {}, dirs = {},
       created = [], spawned = [], running = [], busy = {} \<rparr>"

definition example_env :: "child_outcome \<Rightarrow> env" where
  "example_env c = \<lparr> mkdtemp_outcome = Inr ''/tmp/tmpq1'', popen_outcome = None, child = c \<rparr>"


section \<open>Properties of the summary\<close>

lemma sum_ones: "sum_list (map (\<lambda>r. 1::int) xs) = int (length xs)"
  by (induction xs) simp_all

lemma overall_success_list_all:
  "overall_success (analyze_results name R) = list_all success R"
proof -
  have "(length (filter success R) = length R) = list_all success R"
    by (metis filter_id_conv length_filter_less less_irrefl list_all_iff filter_True)
  then show ?thesis by (simp add: analyze_results_def Let_def sum_ones)
qed

text \<open>
  Claim C10. For every list of step results \<open>R\<close>, the empty list included, the
  summary has successes + failures = total\_steps = length of \<open>R\<close>, its impacts are
  the impacts of the steps in step order (one per step), and overall\_success holds
  exactly when failures = 0; for the empty list total\_steps is 0 and
  overall\_success is true.
\<close>

theorem analyze_results_summary:
  "successes (analyze_results name R) + failures (analyze_results name R)
      = total_steps (analyze_results name R)
   \<and> total_steps (analyze_results name R) = int (length R)
   \<and> impacts (analyze_results name R) = map impact R
   \<and> length (impacts (analyze_results name R)) = length R
   \<and> (overall_success (analyze_results name R) = (failures (analyze_results name R) = 0))
   \<and> total_steps (analyze_results name []) = 0
   \<and> overall_success (analyze_results name []) = True"
  by (auto simp add: analyze_results_def Let_def sum_ones)

section \<open>Properties of the risk scorer\<close>

lemma starts_with_iff: "starts_with sub s = (\<exists>ss. s = sub @ ss)"
  by (induction sub s rule: starts_with.induct) auto

lemma contains_iff: "contains sub s = (\<exists>ps ss. s = ps @ sub @ ss)"
proof (induction s)
  case Nil
  then show ?case by auto
next
  case (Cons c cs)
  show ?case
  proof
    assume "contains sub (c # cs)"
    then consider "starts_with sub (c # cs)" | "contains sub cs" by auto
    then show "\<exists>ps ss. c # cs = ps @ sub @ ss"
    proof cases
      case 1
      then obtain ss where "c # cs = sub @ ss" by (auto simp: starts_with_iff)
      then have "c # cs = [] @ sub @ ss" by simp
      then show ?thesis by blast
    next
      case 2
      with Cons.IH obtain ps ss where "cs = ps @ sub @ ss" by auto
      then have "c # cs = (c # ps) @ sub @ ss" by simp
      then show ?thesis by blast
    qed
  next
    assume "\<exists>ps ss. c # cs = ps @ sub @ ss"
    then obtain ps ss where e: "c # cs = ps @ sub @ ss" by blast
    show "contains sub (c # cs)"
    proof (cases ps)
      case Nil
      with e have "starts_with sub (c # cs)" by (auto simp: starts_with_iff)
      then show ?thesis by simp
    next
      case (Cons p ps')
      with e have "cs = ps' @ sub @ ss" by simp
      with Cons.IH have "contains sub cs" by blast
      then show ?thesis by simp
    qed
  qed
qed

lemma contains_lower_iff: "contains word (lower s) = occurs_any_case word s"
proof
  assume "contains word (lower s)"
  then obtain ps' ss' where "map lower_char s = ps' @ word @ ss'"
    by (auto simp: contains_iff lower_def)
  then obtain ps r where r: "s = ps @ r" "map lower_char r = word @ ss'"
    by (metis map_eq_append_conv)
  then obtain t ss where "r = t @ ss" "map lower_char t = word"
    by (metis map_eq_append_conv)
  with r show "occurs_any_case word s"
    unfolding occurs_any_case_def lower_def by blast
next
  assume "occurs_any_case word s"
  then obtain ps t ss where "s = ps @ t @ ss" "lower t = word"
    unfolding occurs_any_case_def by blast
  then have "lower s = lower ps @ word @ lower ss" by (auto simp: lower_def)
  then show "contains word (lower s)" unfolding contains_iff by blast
qed

text \<open>
  Claim C2. Whenever the captured stderr contains "segfault" or "panic" in any
  letter case the score is 0.9, whatever else stderr holds ("error" included):
  the crash rule is tried first. Otherwise stderr containing "error" gives 0.7,
  and everything else gives 0.2.
\<close>

theorem risk_rule_order:
  "(occurs_any_case ''segfault'' (dict_get (stderr res) [])
      \<or> occurs_any_case ''panic'' (dict_get (stderr res) [])
     \<longrightarrow> calculate_risk res = 0.9)
   \<and> (\<not> occurs_any_case ''segfault'' (dict_get (stderr res) [])
      \<and> \<not> occurs_any_case ''panic'' (dict_get (stderr res) [])
      \<and> occurs_any_case ''error'' (dict_get (stderr res) [])
     \<longrightarrow> calculate_risk res = 0.7)
   \<and> (\<not> occurs_any_case ''segfault'' (dict_get (stderr res) [])
      \<and> \<not> occurs_any_case ''panic'' (dict_get (stderr res) [])
      \<and> \<not> occurs_any_case ''error'' (dict_get (stderr res) [])
     \<longrightarrow> calculate_risk res = 0.2)"
  by (simp add: calculate_risk_def Let_def contains_lower_iff)

theorem risk_rule_order_witness:
  "occurs_any_case ''panic'' ''Kernel PANIC: error''
   \<and> occurs_any_case ''error'' ''Kernel PANIC: error''
   \<and> calculate_risk \<lparr> stdout = Some [], stderr = Some ''Kernel PANIC: error'',
                       returncode = Some 1, error = None, mode = ''qemu'',
                       risk_score = None \<rparr> = 0.9"
proof -
  have "''Kernel PANIC: error'' = ''Kernel '' @ ''PANIC'' @ '': error'' \<and> lower ''PANIC'' = ''panic''"
    by code_simp
  then have h1: "occurs_any_case ''panic'' ''Kernel PANIC: error''"
    unfolding occurs_any_case_def by blast
  have "''Kernel PANIC: error'' = ''Kernel PANIC: '' @ ''error'' @ [] \<and> lower ''error'' = ''error''"
    by code_simp
  then have h2: "occurs_any_case ''error'' ''Kernel PANIC: error''"
    unfolding occurs_any_case_def by blast
  from h1 h2
    risk_rule_order [of "\<lparr> stdout = Some [], stderr = Some ''Kernel PANIC: error'',
                          returncode = Some 1, error = None, mode = ''qemu'',
                          risk_score = None \<rparr>"]
  show ?thesis by (simp add: dict_get_def)
qed

section \<open>Properties of the sandboxed run\<close>


lemma body_dirs:
  "run_qemu_body em ev fw pl d w = (out, w') \<Longrightarrow> dirs w' = dirs w \<and> created w' = created w"
  by (auto simp: run_qemu_body_def Let_def copy2_def
           split: sum.splits option.splits child_outcome.splits if_splits)


lemma body_busy:
  "run_qemu_body em ev fw pl d w = (out, w') \<Longrightarrow>
     busy w' = busy w \<or> (busy w' = insert d (busy w) \<and> child ev = Hangs True)"
  by (auto simp: run_qemu_body_def Let_def copy2_def
           split: sum.splits option.splits child_outcome.splits if_splits)

lemma body_spawn:
  "run_qemu_body em ev fw pl d w = (out, w') \<Longrightarrow>
     build_qemu_cmd em (path_join d (basename fw)) (path_join d (basename pl)) = Inl e \<Longrightarrow>
     spawned w' = spawned w \<and> running w' = running w \<and> busy w' = busy w"
  by (auto simp: run_qemu_body_def Let_def copy2_def split: sum.splits option.splits if_splits)

lemma rmtree_ok:
  "d \<notin> busy w \<Longrightarrow>
   \<exists>w3. rmtree d w = Inr w3 \<and> dirs w3 = dirs w - {d} \<and> created w3 = created w
        \<and> spawned w3 = spawned w \<and> running w3 = running w \<and> busy w3 = busy w"
  by (simp add: rmtree_def)

lemma rmtree_busy:
  "d \<in> busy w \<Longrightarrow>
   rmtree d w = Inl (OSError (''[Errno 39] Directory not empty: '' @ quote @ d @ quote))"
  by (simp add: rmtree_def)

lemma rmtree_inr:
  "rmtree d w = Inr w3 \<Longrightarrow>
   d \<notin> busy w \<and> dirs w3 = dirs w - {d} \<and> created w3 = created w
   \<and> spawned w3 = spawned w \<and> running w3 = running w \<and> busy w3 = busy w"
  by (auto simp: rmtree_def split: if_splits)

lemma build_unsupported:
  "arch em \<notin> {''arm'', ''riscv'', ''mips''} \<Longrightarrow>
   build_qemu_cmd em f p = Inl (ValueError (''Unsupported arch for QEMU: '' @ arch em))"
  by (simp add: build_qemu_cmd_def)

lemma build_supported:
  "arch em \<in> {''arm'', ''riscv'', ''mips''} \<Longrightarrow> \<exists>cmd. build_qemu_cmd em f p = Inr cmd"
  by (auto simp add: build_qemu_cmd_def)

lemma body_ok_copies:
  assumes "fw \<in> files w" "fw \<notin> unreadable w" "pl \<in> files w" "pl \<notin> unreadable w"
  shows "run_qemu_body em ev fw pl d w =
     (let firmware_copy = path_join d (basename fw);
          payload_copy = path_join d (basename pl);
          w2 = w\<lparr>files := insert payload_copy (insert firmware_copy (files w))\<rparr>
      in case build_qemu_cmd em firmware_copy payload_copy of
           Inl e \<Rightarrow> (Inl e, w2)
         | Inr qemu_cmd \<Rightarrow>
             (case popen_outcome ev of
                Some e \<Rightarrow> (Inl e, w2)
              | None \<Rightarrow>
                  (let w3 = w2\<lparr> spawned := spawned w2 @ [qemu_cmd],
                                running := running w2 @ [qemu_cmd] \<rparr>
                   in case child ev of
                        Hangs writing \<Rightarrow>
                          (Inl (TimeoutExpired
                                  (''Command '' @ quote @ qemu_cmd @ quote
                                   @ '' timed out after 60 seconds'')),
                           w3\<lparr>busy := (if writing then insert d (busy w3) else busy w3)\<rparr>)
                      | Exits out err rc \<Rightarrow>
                          (Inr \<lparr> stdout = Some out, stderr = Some err,
                                 returncode = Some rc, error = None,
                                 mode = ''qemu'', risk_score = None \<rparr>,
                           w3\<lparr>running := remove1 qemu_cmd (running w3)\<rparr>))))"
  using assms by (simp add: run_qemu_body_def copy2_def Let_def)

lemma run_qemu_past_checks:
  assumes "firmware_path em = Some fw" "fw \<noteq> []" "fw \<in> files w"
      and "payload_path em = Some pl" "pl \<noteq> []" "pl \<in> files w"
      and "mkdtemp_outcome ev = Inr d"
  shows "run_qemu em ev w =
     (case run_qemu_body em ev fw pl d
             (w\<lparr> dirs := insert d (dirs w), created := created w @ [d],
                 busy := busy w - {d} \<rparr>) of
        (Inr res, w2) \<Rightarrow>
          (case rmtree d w2 of Inl e \<Rightarrow> (Inl e, w2) | Inr w3 \<Rightarrow> (Inr res, w3))
      | (Inl e, w2) \<Rightarrow>
          (case rmtree d w2 of
             Inl e2 \<Rightarrow> (Inl e2, w2)
           | Inr w3 \<Rightarrow> (Inr (error_result e), w3)))"
  using assms unfolding error_result_def by (simp add: run_qemu_def isfile_def Let_def)

lemma run_qemu_missing:
  "not_a_file w (firmware_path em) \<or> not_a_file w (payload_path em) \<Longrightarrow>
   \<exists>msg. run_qemu em ev w = (Inl (FileNotFoundError msg), w)"
  by (auto simp: run_qemu_def not_a_file_def split: option.splits)

lemma checks_pass:
  "\<not> not_a_file w (firmware_path em) \<Longrightarrow> \<not> not_a_file w (payload_path em) \<Longrightarrow>
   \<exists>fw pl. firmware_path em = Some fw \<and> fw \<noteq> [] \<and> fw \<in> files w
          \<and> payload_path em = Some pl \<and> pl \<noteq> [] \<and> pl \<in> files w"
  by (auto simp: not_a_file_def isfile_def split: option.splits)

lemma run_qemu_mkdtemp_fails:
  assumes "firmware_path em = Some fw" "fw \<noteq> []" "fw \<in> files w"
      and "payload_path em = Some pl" "pl \<noteq> []" "pl \<in> files w"
      and "mkdtemp_outcome ev = Inl e"
  shows "run_qemu em ev w = (Inl e, w)"
  using assms by (simp add: run_qemu_def isfile_def)

lemma run_qemu_outcomes:
  assumes "run_qemu em ev w = (out, w')"
  shows "(\<exists>msg. out = Inl (FileNotFoundError msg) \<and> w' = w)
       \<or> (\<exists>e. mkdtemp_outcome ev = Inl e \<and> out = Inl e \<and> w' = w)
       \<or> (\<exists>d fw pl o2 w2. mkdtemp_outcome ev = Inr d
              \<and> run_qemu_body em ev fw pl d
                   (w\<lparr> dirs := insert d (dirs w), created := created w @ [d],
                       busy := busy w - {d} \<rparr>) = (o2, w2)
              \<and> ((\<exists>e. rmtree d w2 = Inl e \<and> out = Inl e \<and> w' = w2)
                 \<or> (rmtree d w2 = Inr w'
                    \<and> out = Inr (case o2 of Inl e \<Rightarrow> error_result e | Inr r \<Rightarrow> r))))"
proof (cases "not_a_file w (firmware_path em) \<or> not_a_file w (payload_path em)")
  case True
  from run_qemu_missing[OF True, of ev] assms show ?thesis by auto
next
  case False
  with checks_pass[of w em] obtain fw pl where
    p: "firmware_path em = Some fw" "fw \<noteq> []" "fw \<in> files w"
       "payload_path em = Some pl" "pl \<noteq> []" "pl \<in> files w" by blast
  show ?thesis
  proof (cases "mkdtemp_outcome ev")
    case (Inl e)
    from run_qemu_mkdtemp_fails[OF p Inl] assms Inl show ?thesis by simp
  next
    case (Inr d)
    obtain o2 w2 where b: "run_qemu_body em ev fw pl d
             (w\<lparr> dirs := insert d (dirs w), created := created w @ [d],
                 busy := busy w - {d} \<rparr>) = (o2, w2)"
      by (cases "run_qemu_body em ev fw pl d
             (w\<lparr> dirs := insert d (dirs w), created := created w @ [d],
                 busy := busy w - {d} \<rparr>)")
    from run_qemu_past_checks[OF p Inr] b assms
    have "(\<exists>e. rmtree d w2 = Inl e \<and> out = Inl e \<and> w' = w2)
                 \<or> (rmtree d w2 = Inr w'
                    \<and> out = Inr (case o2 of Inl e \<Rightarrow> error_result e | Inr r \<Rightarrow> r))"
      by (cases o2; cases "rmtree d w2") auto
    with b Inr show ?thesis by blast
  qed
qed






lemma run_qemu_ready:
  assumes "firmware_path em = Some fw" "fw \<noteq> []" "fw \<in> files w" "fw \<notin> unreadable w"
      and "payload_path em = Some pl" "pl \<noteq> []" "pl \<in> files w" "pl \<notin> unreadable w"
      and "mkdtemp_outcome ev = Inr d"
      and "run_qemu_body em ev fw pl d
             (w\<lparr> dirs := insert d (dirs w), created := created w @ [d],
                 busy := busy w - {d} \<rparr>) = (Inl e, w2)"
  shows "run_qemu em ev w =
           (case rmtree d w2 of Inl e2 \<Rightarrow> (Inl e2, w2) | Inr w3 \<Rightarrow> (Inr (error_result e), w3))"
  using run_qemu_past_checks[OF assms(1,2,3) assms(5,6,7) assms(9)] assms(10)
  by simp

lemma body_timeout:
  assumes "fw \<in> files w" "fw \<notin> unreadable w" "pl \<in> files w" "pl \<notin> unreadable w"
      and "popen_outcome ev = None" "child ev = Hangs writing"
      and "build_qemu_cmd em (path_join d (basename fw)) (path_join d (basename pl)) = Inr cmd"
  shows "\<exists>w2. run_qemu_body em ev fw pl d w =
           (Inl (TimeoutExpired (''Command '' @ quote @ cmd @ quote
                                  @ '' timed out after 60 seconds'')), w2)
         \<and> dirs w2 = dirs w \<and> created w2 = created w
         \<and> spawned w2 = spawned w @ [cmd] \<and> running w2 = running w @ [cmd]
         \<and> busy w2 = (if writing then insert d (busy w) else busy w)"
  using assms(5,6,7) by (simp add: body_ok_copies[OF assms(1,2,3,4)] Let_def)

lemma body_unsupported:
  assumes "fw \<in> files w" "fw \<notin> unreadable w" "pl \<in> files w" "pl \<notin> unreadable w"
      and "arch em \<notin> {''arm'', ''riscv'', ''mips''}"
  shows "\<exists>w2. run_qemu_body em ev fw pl d w =
           (Inl (ValueError (''Unsupported arch for QEMU: '' @ arch em)), w2)
         \<and> dirs w2 = dirs w \<and> created w2 = created w \<and> busy w2 = busy w"
  by (simp add: body_ok_copies[OF assms(1,2,3,4)] build_unsupported[OF assms(5)] Let_def)

lemma run_qemu_no_spawn:
  assumes "arch em \<notin> {''arm'', ''riscv'', ''mips''}"
  shows "spawned (snd (run_qemu em ev w)) = spawned w
       \<and> running (snd (run_qemu em ev w)) = running w"
proof -
  have r: "run_qemu em ev w = (fst (run_qemu em ev w), snd (run_qemu em ev w))" by simp
  from run_qemu_outcomes[OF r]
  consider "snd (run_qemu em ev w) = w"
    | d fw pl o2 w2 where
        "run_qemu_body em ev fw pl d
           (w\<lparr> dirs := insert d (dirs w), created := created w @ [d],
               busy := busy w - {d} \<rparr>) = (o2, w2)"
        "snd (run_qemu em ev w) = w2 \<or> rmtree d w2 = Inr (snd (run_qemu em ev w))"
    by blast
  then show ?thesis
  proof cases
    case 1
    then show ?thesis by simp
  next
    case 2
    from body_spawn[OF 2(1) build_unsupported[OF assms]]
    have s: "spawned w2 = spawned w" "running w2 = running w" by simp_all
    from 2(2) show ?thesis
    proof
      assume "snd (run_qemu em ev w) = w2"
      with s show ?thesis by simp
    next
      assume "rmtree d w2 = Inr (snd (run_qemu em ev w))"
      from rmtree_inr[OF this] s show ?thesis by simp
    qed
  qed
qed

text \<open>
  Claim C4, as the code has it. When the child has not finished after the 60
  seconds of \<^verbatim>\<open>communicate\<close> and does not keep writing into the sandbox
  directory, \<^verbatim>\<open>_run_qemu\<close> raises nothing: it returns the error dictionary
  whose message is that of \<^verbatim>\<open>TimeoutExpired\<close>, and the temporary directory
  is gone when it returns.
\<close>

theorem timeout_returns_error_result:
  assumes "firmware_path em = Some fw" "fw \<noteq> []" "fw \<in> files w" "fw \<notin> unreadable w"
      and "payload_path em = Some pl" "pl \<noteq> []" "pl \<in> files w" "pl \<notin> unreadable w"
      and "mkdtemp_outcome ev = Inr d" "popen_outcome ev = None" "child ev = Hangs False"
      and "arch em \<in> {''arm'', ''riscv'', ''mips''}"
  shows "\<exists>cmd. build_qemu_cmd em (path_join d (basename fw)) (path_join d (basename pl)) = Inr cmd
           \<and> fst (run_qemu em ev w)
               = Inr (error_result (TimeoutExpired (''Command '' @ quote @ cmd @ quote
                                                     @ '' timed out after 60 seconds'')))
           \<and> d \<notin> dirs (snd (run_qemu em ev w))
           \<and> spawned (snd (run_qemu em ev w)) = spawned w @ [cmd]"
proof -
  let ?w1 = "w\<lparr> dirs := insert d (dirs w), created := created w @ [d], busy := busy w - {d} \<rparr>"
  from build_supported[OF assms(12)] obtain cmd where
    c: "build_qemu_cmd em (path_join d (basename fw)) (path_join d (basename pl)) = Inr cmd"
    by blast
  have "\<exists>w2. run_qemu_body em ev fw pl d ?w1 =
           (Inl (TimeoutExpired (''Command '' @ quote @ cmd @ quote
                                  @ '' timed out after 60 seconds'')), w2)
         \<and> dirs w2 = dirs ?w1 \<and> created w2 = created ?w1
         \<and> spawned w2 = spawned ?w1 @ [cmd] \<and> running w2 = running ?w1 @ [cmd]
         \<and> busy w2 = (if False then insert d (busy ?w1) else busy ?w1)"
    using assms(3,4,7,8) by (intro body_timeout[OF _ _ _ _ assms(10,11) c]) simp_all
  then obtain w2 where
    b: "run_qemu_body em ev fw pl d ?w1 =
           (Inl (TimeoutExpired (''Command '' @ quote @ cmd @ quote
                                  @ '' timed out after 60 seconds'')), w2)"
    and f: "spawned w2 = spawned w @ [cmd]" and nb: "d \<notin> busy w2" by auto
  from rmtree_ok[OF nb] obtain w3 where
    r: "rmtree d w2 = Inr w3" "dirs w3 = dirs w2 - {d}" "spawned w3 = spawned w2" by blast
  from run_qemu_ready[OF assms(1-9) b] r(1)
  have "fst (run_qemu em ev w)
               = Inr (error_result (TimeoutExpired (''Command '' @ quote @ cmd @ quote
                                                     @ '' timed out after 60 seconds'')))"
    and "snd (run_qemu em ev w) = w3" by simp_all
  with c f r show ?thesis by simp
qed

theorem timeout_returns_error_result_witness:
  "firmware_path (example_emulator ''arm'') = Some ''fw.bin''
   \<and> ''fw.bin'' \<in> files example_world \<and> ''fw.bin'' \<notin> unreadable example_world
   \<and> payload_path (example_emulator ''arm'') = Some ''payload.bin''
   \<and> ''payload.bin'' \<in> files example_world \<and> ''payload.bin'' \<notin> unreadable example_world
   \<and> mkdtemp_outcome (example_env (Hangs False)) = Inr ''/tmp/tmpq1''
   \<and> popen_outcome (example_env (Hangs False)) = None
   \<and> child (example_env (Hangs False)) = Hangs False
   \<and> arch (example_emulator ''arm'') \<in> {''arm'', ''riscv'', ''mips''}
   \<and> (\<exists>cmd. fst (run_qemu (example_emulator ''arm'') (example_env (Hangs False)) example_world)
               = Inr (error_result (TimeoutExpired (''Command '' @ quote @ cmd @ quote
                                                     @ '' timed out after 60 seconds'')))
           \<and> ''/tmp/tmpq1'' \<notin> dirs (snd (run_qemu (example_emulator ''arm'')
                                                (example_env (Hangs False)) example_world)))"
proof -
  have h1: "firmware_path (example_emulator ''arm'') = Some ''fw.bin''" by code_simp
  have h2: "''fw.bin'' \<noteq> []" by simp
  have h3: "''fw.bin'' \<in> files example_world" by code_simp
  have h4: "''fw.bin'' \<notin> unreadable example_world" by code_simp
  have h5: "payload_path (example_emulator ''arm'') = Some ''payload.bin''" by code_simp
  have h6: "''payload.bin'' \<noteq> []" by simp
  have h7: "''payload.bin'' \<in> files example_world" by code_simp
  have h8: "''payload.bin'' \<notin> unreadable example_world" by code_simp
  have h9: "mkdtemp_outcome (example_env (Hangs False)) = Inr ''/tmp/tmpq1''" by code_simp
  have h10: "popen_outcome (example_env (Hangs False)) = None" by code_simp
  have h11: "child (example_env (Hangs False)) = Hangs False" by code_simp
  have h12: "arch (example_emulator ''arm'') \<in> {''arm'', ''riscv'', ''mips''}" by code_simp
  from timeout_returns_error_result[OF h1 h2 h3 h4 h5 h6 h7 h8 h9 h10 h11 h12]
  have c: "\<exists>cmd. fst (run_qemu (example_emulator ''arm'') (example_env (Hangs False)) example_world)
               = Inr (error_result (TimeoutExpired (''Command '' @ quote @ cmd @ quote
                                                     @ '' timed out after 60 seconds'')))
           \<and> ''/tmp/tmpq1'' \<notin> dirs (snd (run_qemu (example_emulator ''arm'')
                                                (example_env (Hangs False)) example_world))"
    by blast
  from h1 h3 h4 h5 h7 h8 h9 h10 h11 h12 c show ?thesis by (intro conjI)
qed

text \<open>
  Claim C4 as stated fails: after the run of the example machine has timed out
  and returned, the one process it started is still among the running ones; and
  with a child that keeps writing into the sandbox the run raises to its caller.
\<close>

theorem timeout_child_counterexample:
  "running (snd (run_qemu (example_emulator ''arm'') (example_env (Hangs False)) example_world))
     = spawned (snd (run_qemu (example_emulator ''arm'') (example_env (Hangs False))
                      example_world))
   \<and> length (running (snd (run_qemu (example_emulator ''arm'') (example_env (Hangs False))
                              example_world))) = 1
   \<and> isl (fst (run_qemu (example_emulator ''arm'') (example_env (Hangs True)) example_world))"
  by code_simp

text \<open>
  Claim C5, as the code has it. For an architecture other than arm, riscv and
  mips the command builder raises \<^verbatim>\<open>ValueError\<close> and no process is started.
  The builder is called inside the \<^verbatim>\<open>try\<close> block: when both artifacts can
  be copied, the directory has been created by then, the exception is caught and
  returned as an error dictionary, and the directory is removed.
\<close>

theorem unsupported_arch_reported:
  assumes "arch em \<notin> {''arm'', ''riscv'', ''mips''}"
  shows "build_qemu_cmd em f p = Inl (ValueError (''Unsupported arch for QEMU: '' @ arch em))
       \<and> spawned (snd (run_qemu em ev w)) = spawned w
       \<and> (firmware_path em = Some fw \<and> fw \<noteq> [] \<and> fw \<in> files w \<and> fw \<notin> unreadable w
          \<and> payload_path em = Some pl \<and> pl \<noteq> [] \<and> pl \<in> files w \<and> pl \<notin> unreadable w
          \<and> mkdtemp_outcome ev = Inr d
          \<longrightarrow> fst (run_qemu em ev w)
                = Inr (error_result (ValueError (''Unsupported arch for QEMU: '' @ arch em)))
              \<and> created (snd (run_qemu em ev w)) = created w @ [d]
              \<and> d \<notin> dirs (snd (run_qemu em ev w)))"
proof (intro conjI impI)
  show "build_qemu_cmd em f p = Inl (ValueError (''Unsupported arch for QEMU: '' @ arch em))"
    by (rule build_unsupported[OF assms])
  show "spawned (snd (run_qemu em ev w)) = spawned w"
    using run_qemu_no_spawn[OF assms] by (rule conjunct1)
next
  let ?w1 = "w\<lparr> dirs := insert d (dirs w), created := created w @ [d], busy := busy w - {d} \<rparr>"
  assume h: "firmware_path em = Some fw \<and> fw \<noteq> [] \<and> fw \<in> files w \<and> fw \<notin> unreadable w
          \<and> payload_path em = Some pl \<and> pl \<noteq> [] \<and> pl \<in> files w \<and> pl \<notin> unreadable w
          \<and> mkdtemp_outcome ev = Inr d"
  then have p: "firmware_path em = Some fw" "fw \<noteq> []" "fw \<in> files w" "fw \<notin> unreadable w"
       "payload_path em = Some pl" "pl \<noteq> []" "pl \<in> files w" "pl \<notin> unreadable w"
       "mkdtemp_outcome ev = Inr d" by simp_all
  have "\<exists>w2. run_qemu_body em ev fw pl d ?w1 =
           (Inl (ValueError (''Unsupported arch for QEMU: '' @ arch em)), w2)
         \<and> dirs w2 = dirs ?w1 \<and> created w2 = created ?w1 \<and> busy w2 = busy ?w1"
    using p(3,4,7,8) by (intro body_unsupported[OF _ _ _ _ assms]) simp_all
  then obtain w2 where
    b: "run_qemu_body em ev fw pl d ?w1 =
           (Inl (ValueError (''Unsupported arch for QEMU: '' @ arch em)), w2)"
    and f: "created w2 = created w @ [d]" and nb: "d \<notin> busy w2" by auto
  from rmtree_ok[OF nb] obtain w3 where
    r: "rmtree d w2 = Inr w3" "dirs w3 = dirs w2 - {d}" "created w3 = created w2" by blast
  from run_qemu_ready[OF p b] r(1)
  have q: "fst (run_qemu em ev w)
             = Inr (error_result (ValueError (''Unsupported arch for QEMU: '' @ arch em)))"
    and s: "snd (run_qemu em ev w) = w3" by simp_all
  show "fst (run_qemu em ev w)
             = Inr (error_result (ValueError (''Unsupported arch for QEMU: '' @ arch em)))"
    by (rule q)
  show "created (snd (run_qemu em ev w)) = created w @ [d]"
    using s f r by simp
  show "d \<notin> dirs (snd (run_qemu em ev w))"
    using s r by simp
qed

theorem unsupported_arch_reported_witness:
  "arch (example_emulator ''z80'') \<notin> {''arm'', ''riscv'', ''mips''}
   \<and> arch (example_emulator ''z80'') = ''z80''
   \<and> spawned (snd (run_qemu (example_emulator ''z80'') (example_env (Hangs False))
                     example_world))
       = spawned example_world
   \<and> fst (run_qemu (example_emulator ''z80'') (example_env (Hangs False)) example_world)
       = Inr (error_result (ValueError (''Unsupported arch for QEMU: ''
                                         @ arch (example_emulator ''z80''))))
   \<and> created (snd (run_qemu (example_emulator ''z80'') (example_env (Hangs False))
                     example_world))
       = created example_world @ [''/tmp/tmpq1'']
   \<and> ''/tmp/tmpq1'' \<notin> dirs (snd (run_qemu (example_emulator ''z80'')
                                        (example_env (Hangs False)) example_world))"
proof -
  have a: "arch (example_emulator ''z80'') \<notin> {''arm'', ''riscv'', ''mips''}" by code_simp
  have a2: "arch (example_emulator ''z80'') = ''z80''" by code_simp
  have p: "firmware_path (example_emulator ''z80'') = Some ''fw.bin'' \<and> ''fw.bin'' \<noteq> []
          \<and> ''fw.bin'' \<in> files example_world \<and> ''fw.bin'' \<notin> unreadable example_world
          \<and> payload_path (example_emulator ''z80'') = Some ''payload.bin'' \<and> ''payload.bin'' \<noteq> []
          \<and> ''payload.bin'' \<in> files example_world \<and> ''payload.bin'' \<notin> unreadable example_world
          \<and> mkdtemp_outcome (example_env (Hangs False)) = Inr ''/tmp/tmpq1''"
    by code_simp
  note t = unsupported_arch_reported[OF a, of "[]" "[]" "example_env (Hangs False)" example_world
             "''fw.bin''" "''payload.bin''" "''/tmp/tmpq1''"]
  from t have s: "spawned (snd (run_qemu (example_emulator ''z80'') (example_env (Hangs False))
                                 example_world))
       = spawned example_world" by blast
  from t p have r: "fst (run_qemu (example_emulator ''z80'') (example_env (Hangs False))
                          example_world)
       = Inr (error_result (ValueError (''Unsupported arch for QEMU: ''
                                         @ arch (example_emulator ''z80''))))
   \<and> created (snd (run_qemu (example_emulator ''z80'') (example_env (Hangs False))
                     example_world))
       = created example_world @ [''/tmp/tmpq1'']
   \<and> ''/tmp/tmpq1'' \<notin> dirs (snd (run_qemu (example_emulator ''z80'')
                                        (example_env (Hangs False)) example_world))"
    by blast
  from a a2 s r show ?thesis by blast
qed

text \<open>
  Claim C5 as stated fails: for "z80" the run returns a result instead of
  failing, and a temporary directory has been created.
\<close>

theorem unsupported_arch_counterexample:
  "\<not> isl (fst (run (example_emulator ''z80'') None (example_env (Hangs False)) example_world))
   \<and> created (snd (run (example_emulator ''z80'') None (example_env (Hangs False))
                     example_world))
       = [''/tmp/tmpq1'']"
  by code_simp

text \<open>
  Claim C6, as the code has it. When the firmware path or the payload path is
  unset, empty or not a regular file, \<^verbatim>\<open>_run_qemu\<close> raises
  \<^verbatim>\<open>FileNotFoundError\<close> and leaves the machine as it was: no directory
  created, no process started. Whether the file can be read is not checked.
\<close>

theorem missing_artifact_raises:
  assumes "not_a_file w (firmware_path em) \<or> not_a_file w (payload_path em)"
  shows "\<exists>msg. run_qemu em ev w = (Inl (FileNotFoundError msg), w)
             \<and> (\<not> fpga_enabled em \<longrightarrow> run em None ev w = (Inl (FileNotFoundError msg), w))"
proof -
  from run_qemu_missing[OF assms, of ev] obtain msg where
    m: "run_qemu em ev w = (Inl (FileNotFoundError msg), w)" by blast
  then have "\<not> fpga_enabled em \<longrightarrow> run em None ev w = (Inl (FileNotFoundError msg), w)"
    by (simp add: run_def)
  with m show ?thesis by blast
qed

theorem missing_artifact_raises_witness:
  "not_a_file (example_world\<lparr>files := {''payload.bin''}\<rparr>) (firmware_path (example_emulator ''arm''))
   \<and> (\<exists>msg. run_qemu (example_emulator ''arm'') (example_env (Hangs False))
                (example_world\<lparr>files := {''payload.bin''}\<rparr>)
             = (Inl (FileNotFoundError msg), example_world\<lparr>files := {''payload.bin''}\<rparr>))"
proof -
  have h: "not_a_file (example_world\<lparr>files := {''payload.bin''}\<rparr>)
             (firmware_path (example_emulator ''arm''))"
    by code_simp
  from missing_artifact_raises[OF disjI1[OF h], of "example_env (Hangs False)"]
  have "\<exists>msg. run_qemu (example_emulator ''arm'') (example_env (Hangs False))
                (example_world\<lparr>files := {''payload.bin''}\<rparr>)
             = (Inl (FileNotFoundError msg), example_world\<lparr>files := {''payload.bin''}\<rparr>)"
    by blast
  with h show ?thesis by (intro conjI)
qed

text \<open>
  Claim C6 as stated fails: with a firmware file that exists but cannot be read,
  the run returns a result instead of failing, and a temporary directory has been
  created.
\<close>

theorem unreadable_artifact_counterexample:
  "isfile (example_world\<lparr>unreadable := {''fw.bin''}\<rparr>) ''fw.bin''
   \<and> \<not> isl (fst (run (example_emulator ''arm'') None (example_env (Hangs False))
                    (example_world\<lparr>unreadable := {''fw.bin''}\<rparr>)))
   \<and> created (snd (run (example_emulator ''arm'') None (example_env (Hangs False))
                       (example_world\<lparr>unreadable := {''fw.bin''}\<rparr>)))
       = [''/tmp/tmpq1'']"
  by code_simp

text \<open>
  Claim C9 says that every directory a run creates is gone when \<^verbatim>\<open>run\<close>
  returns, after a timeout as after a normal completion. The code calls
  \<^verbatim>\<open>rmtree\<close> in its \<^verbatim>\<open>finally\<close> clause but leaves the timed-out child
  running: on the example machine, with a child that keeps writing into the
  sandbox, \<^verbatim>\<open>run\<close> raises \<^verbatim>\<open>OSError\<close> and the directory it created is
  still on disk.
\<close>

theorem sandbox_dir_persists_after_timeout:
  "''/tmp/tmpq1'' \<notin> dirs example_world
   \<and> fst (run (example_emulator ''arm'') None (example_env (Hangs True)) example_world)
       = Inl (OSError (''[Errno 39] Directory not empty: '' @ quote @ ''/tmp/tmpq1'' @ quote))
   \<and> created (snd (run (example_emulator ''arm'') None (example_env (Hangs True))
                     example_world)) = [''/tmp/tmpq1'']
   \<and> ''/tmp/tmpq1'' \<in> dirs (snd (run (example_emulator ''arm'') None (example_env (Hangs True))
                                      example_world))"
  by code_simp

section \<open>Properties of the chain replay and the report\<close>










text \<open>
  Claim C8. Persisting the report built from the results \<open>R\<close> and their
  summary at a writable path, then reading that file back, gives the step count
  (length of \<open>R\<close>) and the overall success that summarising \<open>R\<close> gives.
\<close>

theorem report_round_trip:
  assumes "writable path" and "path \<noteq> []"
  shows "\<exists>fs1 rep. generate_report writable name R (analyze_results name R) (Some path) fs
                    = Inr (path, fs1)
          \<and> fs1 path = Some rep
          \<and> report_result_count rep = Some (length R)
          \<and> report_total_steps rep = Some (int (length R))
          \<and> report_overall_success rep = Some (overall_success (analyze_results name R))
          \<and> report_overall_success rep = Some (list_all success R)"
proof -
  have t: "total_steps (analyze_results name R) = int (length R)"
    by (simp add: analyze_results_def Let_def)
  from assms show ?thesis
    by (simp add: generate_report_def Let_def report_result_count_def report_total_steps_def
          report_overall_success_def summary_json_def overall_success_list_all t)
qed

theorem report_round_trip_witness:
  "(\<lambda>p. True) ''report.json'' \<and> ''report.json'' \<noteq> []
   \<and> (\<exists>fs1 rep.
        generate_report (\<lambda>p. True) ''t1''
          [\<lparr> device = ''A'', action = ''exploit'', success = True, impact = ''x'', log_text = [] \<rparr>,
           \<lparr> device = ''B'', action = ''exploit'', success = False, impact = ''y'', log_text = [] \<rparr>]
          (analyze_results ''t1''
            [\<lparr> device = ''A'', action = ''exploit'', success = True, impact = ''x'', log_text = [] \<rparr>,
             \<lparr> device = ''B'', action = ''exploit'', success = False, impact = ''y'', log_text = [] \<rparr>])
          (Some ''report.json'') Map.empty
          = Inr (''report.json'', fs1)
        \<and> fs1 ''report.json'' = Some rep
        \<and> report_result_count rep = Some 2
        \<and> report_overall_success rep = Some False)"
proof -
  have h1: "(\<lambda>p. True) ''report.json''" by simp
  have h2: "''report.json'' \<noteq> []" by simp
  from report_round_trip[of "\<lambda>p. True", OF h1 h2, of "''t1''"
        "[\<lparr> device = ''A'', action = ''exploit'', success = True, impact = ''x'', log_text = [] \<rparr>,
          \<lparr> device = ''B'', action = ''exploit'', success = False, impact = ''y'', log_text = [] \<rparr>]"
        Map.empty]
  show ?thesis by (fastforce simp: numeral_2_eq_2)
qed

end
